theory Spec2Isabelle
  imports Main
begin

section \<open>CherryMusic startup orchestration: data model\<close>

text \<open>
  The development embeds \<^verbatim>\<open>cherrymusicserver/__init__.py\<close>: the class
  \<^verbatim>\<open>CherryMusic\<close>, whose constructor sequences service registration,
  configuration resolution, the process id file, the database schema check, the
  background index update and the start of the HTTP server.

  Python values that configuration properties carry.
\<close>

datatype pyval = PStr string | PInt int | PBool bool

text \<open>
  A configuration property as the code reads it: \<^verbatim>\<open>property.key\<close>,
  \<^verbatim>\<open>property.hidden\<close> and its value. A \<^verbatim>\<open>Configuration\<close> is the list
  of its properties (\<^verbatim>\<open>cfg.to_list\<close>), a \<^verbatim>\<open>dict\<close> of overrides an
  association list in insertion order.
\<close>

record property =
  key :: string
  pvalue :: pyval
  hidden :: bool

type_synonym configuration = "property list"

type_synonym pydict = "(string \<times> pyval) list"

text \<open>
  What the updater thread does with its argument: nothing, a partial update of the
  given paths, or a full update.
\<close>

datatype refresh = NoRefresh | PartialUpdate "string list" | FullUpdate

text \<open>
  The texts the program prints or logs. Each constructor stands for one literal of the
  source, with the values formatted into it:
  \<^item> \<open>PidFileExistsMsg p\<close>: "Process id file p already exists. ..." (line 132);
  \<^item> \<open>PidFileMissingMsg\<close>: "Error removing pid file, doesn't exist!" (line 146);
  \<^item> \<open>ExitingMsg\<close>: "Exiting..." (line 125);
  \<^item> \<open>NewConfigWrittenMsg p\<close>: "New configuration file was written to: p" (line 178);
  \<^item> \<open>SchemaUpdateAbortedMsg\<close>: "database schema update aborted. quitting." (line 203);
  \<^item> \<open>ConsentPromptMsg rs\<close>: the prompt ending in "Run schema update? [y/N]: " built
    from the reasons \<open>rs\<close> (lines 221-237);
  \<^item> \<open>NewOptionsMsg ks\<close>: "New configuration options available: ..." (line 281);
  \<^item> \<open>DeprecatedOptionsMsg ks\<close>: "The following configuration options are not used
    anymore: ..." (line 286);
  \<^item> \<open>NewConfigHintMsg\<close>: "Start with --newconfig to generate ..." (line 290);
  \<^item> \<open>MigrationNoticeMsg p\<close>: the "Oops!" notice about moved files (line 294);
  \<^item> \<open>WelcomeMsg p\<close>: "Welcome to CherryMusic ..." naming the configuration file
    (line 317);
  \<^item> \<open>ConfigErrorMsg k v\<close>: the error the configuration layer reports for the entry
    \<open>k = v\<close> it rejects.
\<close>

datatype message =
    PidFileExistsMsg string
  | PidFileMissingMsg
  | ExitingMsg
  | NewConfigWrittenMsg string
  | SchemaUpdateAbortedMsg
  | ConsentPromptMsg "string list"
  | NewOptionsMsg "string list"
  | DeprecatedOptionsMsg "string list"
  | NewConfigHintMsg
  | MigrationNoticeMsg string
  | WelcomeMsg string
  | ConfigErrorMsg string pyval

datatype signal = SIGTERM | SIGINT

text \<open>
  The observable actions of a run, in the order they happen: \<^verbatim>\<open>print\<close>,
  \<^verbatim>\<open>log.i\<close>, \<^verbatim>\<open>log.e\<close>, \<^verbatim>\<open>service.provide\<close>,
  \<^verbatim>\<open>signal.signal\<close>, the start of the "Updater" thread with the work it will
  do, and the call of \<^verbatim>\<open>start_server\<close>.
\<close>

datatype event =
    Print message
  | LogI message
  | LogE message
  | Provide string
  | SignalHandler signal
  | ThreadStart refresh
  | StartServer

text \<open>
  The state a run reads and changes: the files (path to contents), the lines still to
  be read from standard input, the actions so far, and the module's global
  \<^verbatim>\<open>config\<close> (\<^verbatim>\<open>None\<close> until \<^verbatim>\<open>_init_config\<close> assigns it).
\<close>

record world =
  fs :: "string \<rightharpoonup> string"
  stdin :: "string list"
  trace :: "event list"
  config :: "configuration option"

text \<open>
  \<^verbatim>\<open>sys.exit(arg)\<close> raises \<^verbatim>\<open>SystemExit\<close>: an integer argument is the
  exit status, any other object is printed to standard error and the status is 1.
  \<^verbatim>\<open>input\<close> raises \<^verbatim>\<open>EOFError\<close> at the end of input; a collaborator
  may raise anything else.
\<close>

datatype exit_arg = Code int | Message message

datatype abort = SystemExit exit_arg | EOFError | Raised string

fun exit_status :: "abort \<Rightarrow> int" where
  "exit_status (SystemExit (Code n)) = n"
| "exit_status (SystemExit (Message m)) = 1"
| "exit_status EOFError = 1"
| "exit_status (Raised e) = 1"

text \<open>
  A statement either completes with a value in a new state, or is cut short by an
  exception in the state reached so far.
\<close>

datatype 'a outcome = Done 'a world | Abort abort world

definition seq :: "'a outcome \<Rightarrow> ('a \<Rightarrow> world \<Rightarrow> 'b outcome) \<Rightarrow> 'b outcome" where
  "seq m f = (case m of Done a w \<Rightarrow> f a w | Abort e w \<Rightarrow> Abort e w)"

definition emit :: "event \<Rightarrow> world \<Rightarrow> world" where
  "emit e w = w\<lparr>trace := trace w @ [e]\<rparr>"

definition sys_exit :: "exit_arg \<Rightarrow> world \<Rightarrow> 'a outcome" where
  "sys_exit a w = Abort (SystemExit a) w"

text \<open>\<^verbatim>\<open>str(n)\<close> for a process id: its decimal digits.\<close>

definition digit_char :: "nat \<Rightarrow> char" where
  "digit_char d = char_of (48 + d)"

fun str_nat :: "nat \<Rightarrow> string" where
  "str_nat n = (if n < 10 then [digit_char n]
                else str_nat (n div 10) @ [digit_char (n mod 10)])"

declare str_nat.simps [simp del]

section \<open>Collaborators\<close>

text \<open>
  The modules \<^verbatim>\<open>pathprovider\<close>, \<^verbatim>\<open>configuration\<close>, \<^verbatim>\<open>database\<close>,
  \<^verbatim>\<open>browsersetup\<close> and CherryPy are used by the code but are not part of it. They
  are parameters of the model:
  \<^item> \<open>pidFile\<close>, \<open>configurationFile\<close>: the paths \<^verbatim>\<open>pathprovider\<close> returns;
  \<^item> \<open>fallbackPathInUse\<close>: \<^verbatim>\<open>pathprovider.fallbackPathInUse()\<close>;
  \<^item> \<open>getpid\<close>: \<^verbatim>\<open>os.getpid()\<close>;
  \<^item> \<open>DBNAME\<close>: \<^verbatim>\<open>sqlitecache.DBNAME\<close>;
  \<^item> \<open>from_defaults\<close>: \<^verbatim>\<open>cfg.from_defaults()\<close>;
  \<^item> \<open>serialize\<close>: the text \<^verbatim>\<open>cfg.write_to_file\<close> writes for a configuration;
  \<^item> \<open>from_configparser\<close>: \<^verbatim>\<open>cfg.from_configparser\<close>, reading a path;
  \<^item> \<open>accepts\<close>: whether the configuration layer accepts a value for a key;
  \<^item> \<open>configureAndStartCherryPy\<close>: the in-browser setup server;
  \<^item> \<open>resetdb\<close>: \<^verbatim>\<open>database.resetdb\<close>;
  \<^item> \<open>ensure_current_version\<close>: \<^verbatim>\<open>database.ensure_current_version\<close>, which
    receives the consent callback;
  \<^item> \<open>serve\<close>: the CherryPy server that \<^verbatim>\<open>start_server\<close> configures from the
    global \<^verbatim>\<open>config\<close>, starts and blocks on.
\<close>

record env =
  pidFile :: string
  configurationFile :: string
  fallbackPathInUse :: "world \<Rightarrow> bool"
  getpid :: nat
  DBNAME :: string
  from_defaults :: configuration
  serialize :: "configuration \<Rightarrow> string"
  from_configparser :: "string \<Rightarrow> world \<Rightarrow> configuration outcome"
  accepts :: "string \<Rightarrow> pyval \<Rightarrow> bool"
  configureAndStartCherryPy :: "pyval \<Rightarrow> world \<Rightarrow> unit outcome"
  resetdb :: "string \<Rightarrow> world \<Rightarrow> unit outcome"
  ensure_current_version ::
    "(string list \<Rightarrow> world \<Rightarrow> bool outcome) \<Rightarrow> world \<Rightarrow> bool outcome"
  serve :: "world \<Rightarrow> unit outcome"

definition pidFileExists :: "env \<Rightarrow> world \<Rightarrow> bool" where
  "pidFileExists E w = (fs w (pidFile E) \<noteq> None)"

definition configurationFileExists :: "env \<Rightarrow> world \<Rightarrow> bool" where
  "configurationFileExists E w = (fs w (configurationFile E) \<noteq> None)"

definition write_file :: "string \<Rightarrow> string \<Rightarrow> world \<Rightarrow> world" where
  "write_file p text w = w\<lparr>fs := (fs w)(p \<mapsto> text)\<rparr>"

definition remove_file :: "string \<Rightarrow> world \<Rightarrow> world" where
  "remove_file p w = w\<lparr>fs := (fs w)(p := None)\<rparr>"

section \<open>The process id file\<close>

text \<open>
  \<^verbatim>\<open>create_pid_file\<close> (lines 128-138): exit with the explanation if the file
  exists, else write the process id into it.
\<close>

definition create_pid_file :: "env \<Rightarrow> world \<Rightarrow> unit outcome" where
  "create_pid_file E w =
     (if pidFileExists E w
      then sys_exit (Message (PidFileExistsMsg (pidFile E))) w
      else Done () (write_file (pidFile E) (str_nat (getpid E)) w))"

text \<open>
  \<^verbatim>\<open>delete_pid_file\<close> (lines 140-146): remove the file if it exists, else print
  a message.
\<close>

definition delete_pid_file :: "env \<Rightarrow> world \<Rightarrow> unit outcome" where
  "delete_pid_file E w =
     (if pidFileExists E w
      then Done () (remove_file (pidFile E) w)
      else Done () (emit (Print PidFileMissingMsg) w))"

text \<open>
  \<^verbatim>\<open>stopAndCleanUp\<close> (lines 121-126): delete the process id file, print
  "Exiting..." and exit with status 0.
\<close>

definition stopAndCleanUp :: "env \<Rightarrow> world \<Rightarrow> 'a outcome" where
  "stopAndCleanUp E w =
     (case delete_pid_file E w of
        Done u w1 \<Rightarrow> sys_exit (Code 0) (emit (Print ExitingMsg) w1)
      | Abort e w1 \<Rightarrow> Abort e w1)"

section \<open>Services and configuration\<close>

text \<open>\<^verbatim>\<open>setup_services\<close> (lines 148-163): six calls of \<^verbatim>\<open>service.provide\<close>.\<close>

definition setup_services :: "world \<Rightarrow> unit outcome" where
  "setup_services w =
     Done () (emit (Provide ''dbconnector'') (emit (Provide ''useroptions'')
       (emit (Provide ''users'') (emit (Provide ''playlist'')
       (emit (Provide ''cherrymodel'') (emit (Provide ''filecache'') w))))))"

text \<open>Reading a configuration: its items, and the value of a key.\<close>

definition items :: "configuration \<Rightarrow> pydict" where
  "items c = map (\<lambda>p. (key p, pvalue p)) c"

definition cfg_get :: "configuration \<Rightarrow> string \<Rightarrow> pyval option" where
  "cfg_get c k = map_of (items c) k"

definition cfg_keys :: "configuration \<Rightarrow> string list" where
  "cfg_keys c = map key c"

text \<open>
  Modelled from the spec: \<^verbatim>\<open>Configuration.replace(other, on_error)\<close> of the module
  \<^verbatim>\<open>cherrymusicserver/configuration.py\<close>, which is missing from the sources. The
  specification describes an overlay "applied key-by-key with per-key error isolation (a
  bad value logs and falls back to the underlying layer's value, never aborts the
  merge)", in which "unknown override keys are accepted as-is (pass-through) unless the
  collaborator config layer rejects them, in which case the failure is logged and the
  prior layer's value is kept for that key only". So each entry of \<open>other\<close> is taken in
  turn: an accepted value replaces the value of its key (a key the base does not have is
  added, not hidden), a rejected one is handed to \<open>on_error\<close> and the base is kept.
\<close>

fun set_value :: "configuration \<Rightarrow> string \<Rightarrow> pyval \<Rightarrow> configuration" where
  "set_value [] k v = [\<lparr>key = k, pvalue = v, hidden = False\<rparr>]"
| "set_value (p # ps) k v =
     (if key p = k then p\<lparr>pvalue := v\<rparr> # ps else p # set_value ps k v)"

fun replace ::
  "env \<Rightarrow> configuration \<Rightarrow> pydict \<Rightarrow> (message \<Rightarrow> world \<Rightarrow> unit outcome) \<Rightarrow> world
     \<Rightarrow> configuration outcome" where
  "replace E base [] on_error w = Done base w"
| "replace E base ((k, v) # rest) on_error w =
     (if accepts E k v then replace E (set_value base k v) rest on_error w
      else (case on_error (ConfigErrorMsg k v) w of
              Done u w1 \<Rightarrow> replace E base rest on_error w1
            | Abort e w1 \<Rightarrow> Abort e w1))"

text \<open>\<^verbatim>\<open>log.e\<close>, the handler \<^verbatim>\<open>_init_config\<close> passes as \<^verbatim>\<open>on_error\<close>.\<close>

definition log_e :: "message \<Rightarrow> world \<Rightarrow> unit outcome" where
  "log_e m w = Done () (emit (LogE m) w)"

text \<open>
  \<^verbatim>\<open>transform\<close> (line 271): \<^verbatim>\<open>'[{0}]: {2}'.format(*(s.partition('.')))\<close>.
  \<^verbatim>\<open>partition\<close> cuts at the first dot; without a dot the tail is empty.
\<close>

definition partition_dot :: "string \<Rightarrow> string \<times> string \<times> string" where
  "partition_dot s =
     (case dropWhile (\<lambda>c. c \<noteq> CHR ''.'') s of
        [] \<Rightarrow> (s, [], [])
      | d # tail \<Rightarrow> (takeWhile (\<lambda>c. c \<noteq> CHR ''.'') s, [d], tail))"

definition transform :: "string \<Rightarrow> string" where
  "transform s = (case partition_dot s of (h, d, t) \<Rightarrow> ''['' @ h @ '']: '' @ t)"

text \<open>
  \<^verbatim>\<open>_check_for_config_updates\<close> (lines 265-291). The two loops append to
  \<^verbatim>\<open>new\<close> and \<^verbatim>\<open>deprecated\<close>; then up to three messages are logged.
\<close>

fun collect_new :: "configuration \<Rightarrow> configuration \<Rightarrow> string list \<Rightarrow> string list" where
  "collect_new [] known_config new = new"
| "collect_new (p # ps) known_config new =
     collect_new ps known_config
       (if key p \<notin> set (cfg_keys known_config) \<and> \<not> hidden p
        then new @ [transform (key p)] else new)"

fun collect_deprecated :: "configuration \<Rightarrow> configuration \<Rightarrow> string list \<Rightarrow> string list" where
  "collect_deprecated [] default_cfg deprecated = deprecated"
| "collect_deprecated (p # ps) default_cfg deprecated =
     collect_deprecated ps default_cfg
       (if key p \<notin> set (cfg_keys default_cfg)
        then deprecated @ [transform (key p)] else deprecated)"

definition check_for_config_updates ::
  "configuration \<Rightarrow> configuration \<Rightarrow> world \<Rightarrow> unit outcome" where
  "check_for_config_updates default_cfg known_config w =
     (let new = collect_new default_cfg known_config [];
          deprecated = collect_deprecated known_config default_cfg [];
          w1 = (if new \<noteq> [] then emit (LogI (NewOptionsMsg new)) w else w);
          w2 = (if deprecated \<noteq> [] then emit (LogI (DeprecatedOptionsMsg deprecated)) w1
                else w1);
          w3 = (if new \<noteq> [] \<or> deprecated \<noteq> [] then emit (LogI NewConfigHintMsg) w2
                else w2)
      in Done () w3)"

text \<open>
  \<^verbatim>\<open>_init_config\<close> (lines 251-263): defaults, replaced by the file's values,
  replaced by the overrides, both with \<^verbatim>\<open>on_error=log.e\<close>; the result becomes
  the global \<^verbatim>\<open>config\<close>.
\<close>

definition init_config :: "env \<Rightarrow> pydict \<Rightarrow> world \<Rightarrow> unit outcome" where
  "init_config E override_dict w =
     (let defaults = from_defaults E in
      seq (from_configparser E (configurationFile E) w) (\<lambda>filecfg w1.
      seq (replace E defaults (items filecfg) log_e w1) (\<lambda>custom w2.
      seq (replace E custom override_dict log_e w2) (\<lambda>effective w3.
        check_for_config_updates defaults filecfg (w3\<lparr>config := Some effective\<rparr>)))))"

text \<open>The two notices that end the run (lines 293-330).\<close>

definition printMigrationNoticeAndExit :: "env \<Rightarrow> world \<Rightarrow> 'a outcome" where
  "printMigrationNoticeAndExit E w =
     sys_exit (Code 1) (emit (Print (MigrationNoticeMsg (configurationFile E))) w)"

definition printWelcomeAndExit :: "env \<Rightarrow> world \<Rightarrow> 'a outcome" where
  "printWelcomeAndExit E w =
     sys_exit (Code 0) (emit (Print (WelcomeMsg (configurationFile E))) w)"

text \<open>
  \<^verbatim>\<open>dict.pop(k, False)\<close>: the value removed, or \<^verbatim>\<open>False\<close>; and the
  dictionary left behind.
\<close>

definition pop_value :: "string \<Rightarrow> pydict \<Rightarrow> pyval" where
  "pop_value k d = (case map_of d k of Some v \<Rightarrow> v | None \<Rightarrow> PBool False)"

definition pop_rest :: "string \<Rightarrow> pydict \<Rightarrow> pydict" where
  "pop_rest k d = filter (\<lambda>kv. fst kv \<noteq> k) d"

text \<open>\<^verbatim>\<open>setup_config\<close> (lines 165-189).\<close>

definition setup_config :: "env \<Rightarrow> bool \<Rightarrow> bool \<Rightarrow> pydict \<Rightarrow> world \<Rightarrow> unit outcome" where
  "setup_config E createNewConfig browsersetup cfg_override w =
     seq (if browsersetup
          then configureAndStartCherryPy E (pop_value ''server.port'' cfg_override) w
          else Done () w) (\<lambda>u w1.
     let cfg_override1 =
           (if browsersetup then pop_rest ''server.port'' cfg_override else cfg_override)
     in
     seq (if createNewConfig
          then (let newconfigpath = configurationFile E @ ''.new'' in
                sys_exit (Code 0)
                  (emit (LogI (NewConfigWrittenMsg newconfigpath))
                     (write_file newconfigpath (serialize E (from_defaults E)) w1)))
          else Done () w1) (\<lambda>u w2.
     seq (if \<not> configurationFileExists E w2
          then (if fallbackPathInUse E w2
                then printMigrationNoticeAndExit E w2
                else printWelcomeAndExit E
                       (write_file (configurationFile E) (serialize E (from_defaults E)) w2))
          else Done () w2) (\<lambda>u w3.
     init_config E cfg_override1 w3)))"

section \<open>The schema check and the background update\<close>

text \<open>
  \<^verbatim>\<open>str.isspace\<close>, \<^verbatim>\<open>str.lower\<close> and \<^verbatim>\<open>str.strip\<close> on the code
  points below 256 that a \<open>char\<close> holds: the white space is 9-13, 28-32, 133 and 160;
  the upper-case letters are 65-90 and 192-222 without 215, each 32 below its lower-case
  letter.
\<close>

definition isspace :: "char \<Rightarrow> bool" where
  "isspace c =
     (let n = (of_char c :: nat)
      in (9 \<le> n \<and> n \<le> 13) \<or> (28 \<le> n \<and> n \<le> 32) \<or> n = 133 \<or> n = 160)"

definition lower_char :: "char \<Rightarrow> char" where
  "lower_char c =
     (let n = (of_char c :: nat)
      in if (65 \<le> n \<and> n \<le> 90) \<or> (192 \<le> n \<and> n \<le> 222 \<and> n \<noteq> 215)
         then char_of (n + 32) else c)"

definition lower :: "string \<Rightarrow> string" where
  "lower s = map lower_char s"

definition strip :: "string \<Rightarrow> string" where
  "strip s = rev (dropWhile isspace (rev (dropWhile isspace s)))"

text \<open>
  \<^verbatim>\<open>_get_user_consent_for_db_schema_update\<close> (lines 214-238):
  \<^verbatim>\<open>input(msg)\<close> prints the prompt and reads a line;
  the answer is \<^verbatim>\<open>input(msg).lower().strip() in ('y',)\<close>.
\<close>

definition get_user_consent_for_db_schema_update ::
  "string list \<Rightarrow> world \<Rightarrow> bool outcome" where
  "get_user_consent_for_db_schema_update reasons w =
     (let w1 = emit (Print (ConsentPromptMsg reasons)) w in
      case stdin w1 of
        [] \<Rightarrow> Abort EOFError w1
      | line # rest \<Rightarrow> Done (strip (lower line) \<in> set [''y'']) (w1\<lparr>stdin := rest\<rparr>))"

text \<open>
  \<^verbatim>\<open>_update_if_necessary\<close> (lines 240-249): a non-empty list is a partial update,
  an empty one a full update, \<^verbatim>\<open>None\<close> nothing.
\<close>

definition truthy :: "string list option \<Rightarrow> bool" where
  "truthy update = (case update of None \<Rightarrow> False | Some ps \<Rightarrow> ps \<noteq> [])"

definition update_if_necessary :: "string list option \<Rightarrow> refresh" where
  "update_if_necessary update =
     (if truthy update then PartialUpdate (case update of Some ps \<Rightarrow> ps | None \<Rightarrow> [])
      else if update \<noteq> None then FullUpdate
      else NoRefresh)"

text \<open>\<^verbatim>\<open>update or ()\<close>.\<close>

definition or_empty :: "string list option \<Rightarrow> string list option" where
  "or_empty update = (if truthy update then update else Some [])"

text \<open>
  \<^verbatim>\<open>setup_databases\<close> (lines 191-212). The thread is started and not joined:
  \<open>ThreadStart\<close> records the work it was given.
\<close>

definition setup_databases ::
  "env \<Rightarrow> string list option \<Rightarrow> bool \<Rightarrow> bool \<Rightarrow> world \<Rightarrow> unit outcome" where
  "setup_databases E update dropfiledb setup w =
     (let update1 = (if dropfiledb then Some [] else update) in
      seq (if dropfiledb then resetdb E (DBNAME E) w else Done () w) (\<lambda>u w1.
      let update2 = (if setup then or_empty update1 else update1) in
      seq (ensure_current_version E get_user_consent_for_db_schema_update w1)
        (\<lambda>db_is_ready w2.
      seq (if \<not> db_is_ready
           then sys_exit (Code 1) (emit (LogI SchemaUpdateAbortedMsg) w2)
           else Done () w2) (\<lambda>u w3.
      if update2 \<noteq> None
      then (let w4 = emit (ThreadStart (update_if_necessary update2)) w3 in
            if \<not> setup then stopAndCleanUp E w4 else Done () w4)
      else Done () w3))))"

section \<open>The constructor\<close>

text \<open>
  \<^verbatim>\<open>start_server\<close> (lines 332-408) assembles CherryPy's options from the global
  \<^verbatim>\<open>config\<close>, starts the engine and blocks; all of it is the service layer
  \<open>serve\<close>, and \<open>StartServer\<close> marks the call.
\<close>

definition start_server :: "env \<Rightarrow> world \<Rightarrow> unit outcome" where
  "start_server E w = serve E (emit StartServer w)"

text \<open>\<^verbatim>\<open>CherryMusic.__init__\<close> (lines 110-119).\<close>

definition CherryMusic_init ::
  "env \<Rightarrow> string list option \<Rightarrow> bool \<Rightarrow> bool \<Rightarrow> bool \<Rightarrow> pydict \<Rightarrow> world \<Rightarrow> unit outcome" where
  "CherryMusic_init E update createNewConfig dropfiledb setup cfg_override w =
     seq (setup_services w) (\<lambda>u w1.
     seq (setup_config E createNewConfig setup cfg_override w1) (\<lambda>u w2.
     let w3 = emit (SignalHandler SIGINT) (emit (SignalHandler SIGTERM) w2) in
     seq (create_pid_file E w3) (\<lambda>u w4.
     seq (setup_databases E update dropfiledb setup w4) (\<lambda>u w5.
     seq (start_server E w5) (\<lambda>u w6.
     delete_pid_file E w6)))))"

section \<open>Observations and sample runs\<close>

text \<open>The state a run ends in, and the exception that ended it, if any.\<close>

definition final :: "'a outcome \<Rightarrow> world" where
  "final r = (case r of Done a w \<Rightarrow> w | Abort e w \<Rightarrow> w)"

definition aborted :: "'a outcome \<Rightarrow> abort option" where
  "aborted r = (case r of Done a w \<Rightarrow> None | Abort e w \<Rightarrow> Some e)"

text \<open>
  A sample installation: defaults \<open>a = 1\<close> and a hidden \<open>b = 2\<close>, a configuration
  file that sets \<open>a = 5\<close>, a configuration layer that rejects the value \<open>bad\<close>, a
  current database schema, and collaborators that return at once.
\<close>

definition demo_env :: env where
  "demo_env = \<lparr>pidFile = ''cherrymusic.pid'', configurationFile = ''cherrymusic.conf'',
     fallbackPathInUse = (\<lambda>w. False), getpid = 4711, DBNAME = ''cherry.cache'',
     from_defaults = [\<lparr>key = ''a'', pvalue = PInt 1, hidden = False\<rparr>,
                      \<lparr>key = ''b'', pvalue = PInt 2, hidden = True\<rparr>],
     serialize = (\<lambda>c. concat (map key c)),
     from_configparser = (\<lambda>p w. Done [\<lparr>key = ''a'', pvalue = PInt 5, hidden = False\<rparr>] w),
     accepts = (\<lambda>k v. v \<noteq> PStr ''bad''),
     configureAndStartCherryPy = (\<lambda>port w. Done () w),
     resetdb = (\<lambda>n w. Done () w),
     ensure_current_version = (\<lambda>consentcallback w. Done True w),
     serve = (\<lambda>w. Done () w)\<rparr>"

text \<open>The same with a stale schema: the check asks for consent and returns the answer.\<close>

definition stale_env :: env where
  "stale_env = demo_env\<lparr>ensure_current_version :=
     (\<lambda>consentcallback w. consentcallback [''schema outdated''] w)\<rparr>"

text \<open>The same with the old file locations still in use.\<close>

definition fallback_env :: env where
  "fallback_env = demo_env\<lparr>fallbackPathInUse := (\<lambda>w. True)\<rparr>"

definition empty_world :: world where
  "empty_world = \<lparr>fs = Map.empty, stdin = [], trace = [], config = None\<rparr>"

text \<open>A configuration file exists; and a process id file as well.\<close>

definition demo_world :: world where
  "demo_world = write_file ''cherrymusic.conf'' ''[server]'' empty_world"

definition marked_world :: world where
  "marked_world = write_file ''cherrymusic.pid'' ''17'' demo_world"

text \<open>
  The diagnostics in the specification's words: a key is new when it is in the defaults,
  not in the configuration file and not hidden; it is deprecated when it is in the
  configuration file and not in the defaults.
\<close>

definition new_keys :: "configuration \<Rightarrow> configuration \<Rightarrow> string list" where
  "new_keys default_cfg known_config =
     map key (filter (\<lambda>p. key p \<notin> set (cfg_keys known_config) \<and> \<not> hidden p) default_cfg)"

definition deprecated_keys :: "configuration \<Rightarrow> configuration \<Rightarrow> string list" where
  "deprecated_keys default_cfg known_config =
     map key (filter (\<lambda>p. key p \<notin> set (cfg_keys default_cfg)) known_config)"

text \<open>
  The entries of a layer that the configuration layer accepts and those it rejects, and
  the configuration an overlay ends with: each accepted entry set in turn, each rejected
  one skipped.
\<close>

definition accepted :: "env \<Rightarrow> pydict \<Rightarrow> pydict" where
  "accepted E other = filter (\<lambda>kv. accepts E (fst kv) (snd kv)) other"

definition rejected :: "env \<Rightarrow> pydict \<Rightarrow> pydict" where
  "rejected E other = filter (\<lambda>kv. \<not> accepts E (fst kv) (snd kv)) other"

fun overlay :: "env \<Rightarrow> configuration \<Rightarrow> pydict \<Rightarrow> configuration" where
  "overlay E base [] = base"
| "overlay E base ((k, v) # rest) =
     overlay E (if accepts E k v then set_value base k v else base) rest"

section \<open>Basic facts\<close>

lemmas run_defs =
  CherryMusic_init_def setup_services_def setup_config_def init_config_def
  check_for_config_updates_def create_pid_file_def delete_pid_file_def
  setup_databases_def start_server_def stopAndCleanUp_def sys_exit_def
  printMigrationNoticeAndExit_def printWelcomeAndExit_def
  get_user_consent_for_db_schema_update_def
  update_if_necessary_def or_empty_def truthy_def
  pidFileExists_def configurationFileExists_def write_file_def remove_file_def
  emit_def log_e_def items_def cfg_keys_def pop_value_def pop_rest_def
  final_def aborted_def
  demo_env_def empty_world_def demo_world_def

lemma seq_Done [simp]: "seq (Done a w) f = f a w"
  by (simp add: seq_def)

lemma seq_Abort [simp]: "seq (Abort e w) f = Abort e w"
  by (simp add: seq_def)

lemma fs_emit [simp]: "fs (emit e w) = fs w"
  by (simp add: emit_def)

lemma trace_emit [simp]: "trace (emit e w) = trace w @ [e]"
  by (simp add: emit_def)

lemma stdin_emit [simp]: "stdin (emit e w) = stdin w"
  by (simp add: emit_def)

lemma config_emit [simp]: "config (emit e w) = config w"
  by (simp add: emit_def)

lemma pidFileExists_emit [simp]: "pidFileExists E (emit e w) = pidFileExists E w"
  by (simp add: pidFileExists_def)

lemma stopAndCleanUp_exits:
  "stopAndCleanUp E w =
     Abort (SystemExit (Code 0))
       (emit (Print ExitingMsg)
          (if pidFileExists E w then remove_file (pidFile E) w
           else emit (Print PidFileMissingMsg) w))"
  by (simp add: stopAndCleanUp_def delete_pid_file_def sys_exit_def)

text \<open>What \<^verbatim>\<open>setup_databases\<close> does once the schema check has returned.\<close>

lemma setup_databases_after_gate:
  assumes "(if dropfiledb then resetdb E (DBNAME E) w else Done () w) = Done () w1"
    and "ensure_current_version E get_user_consent_for_db_schema_update w1 = Done ready w2"
  shows "setup_databases E update dropfiledb setup_only w =
     (if \<not> ready then Abort (SystemExit (Code 1)) (emit (LogI SchemaUpdateAbortedMsg) w2)
      else if setup_only
        then Done () (emit (ThreadStart (update_if_necessary
                        (or_empty (if dropfiledb then Some [] else update)))) w2)
      else if dropfiledb \<or> update \<noteq> None
        then stopAndCleanUp E (emit (ThreadStart (update_if_necessary
                        (if dropfiledb then Some [] else update))) w2)
      else Done () w2)"
  using assms
  by (auto simp add: setup_databases_def Let_def sys_exit_def or_empty_def truthy_def
        split: if_splits)

text \<open>The constructor, once the process id file has been written.\<close>

lemma CherryMusic_init_after_pid:
  assumes "setup_services w = Done () wa"
    and "setup_config E createNewConfig setup_only cfg_override wa = Done () wb"
    and "create_pid_file E (emit (SignalHandler SIGINT) (emit (SignalHandler SIGTERM) wb))
           = Done () wc"
  shows "CherryMusic_init E update createNewConfig dropfiledb setup_only cfg_override w =
     seq (setup_databases E update dropfiledb setup_only wc) (\<lambda>u w5.
     seq (start_server E w5) (\<lambda>u w6. delete_pid_file E w6))"
  using assms by (simp add: CherryMusic_init_def Let_def)

text \<open>In setup mode some update is always launched.\<close>

lemma update_if_necessary_or_empty: "update_if_necessary (or_empty update) \<noteq> NoRefresh"
  by (cases update) (simp_all add: update_if_necessary_def or_empty_def truthy_def)

section \<open>The process id file: claims C8 and C9\<close>

text \<open>
  C8. If the process id file exists when \<^verbatim>\<open>create_pid_file\<close> is called, the
  process exits with the existing-file explanation, which is exit status 1, and the
  state is left as it was: no file is created or removed. If the file does not exist,
  it is written with the decimal process id, and no other file changes. In the
  constructor, a process id file found after the configuration step ends the run with
  that exit: the files, the input and the configuration are those the configuration
  step left, and the only further actions are the two signal registrations, so the
  database, the updater thread and the server are never reached.
\<close>

theorem create_pid_file_exits_or_writes:
  "(pidFileExists E w \<longrightarrow>
      create_pid_file E w = Abort (SystemExit (Message (PidFileExistsMsg (pidFile E)))) w
      \<and> exit_status (SystemExit (Message (PidFileExistsMsg (pidFile E)))) = 1)
   \<and> (\<not> pidFileExists E w \<longrightarrow>
      (\<exists>w1. create_pid_file E w = Done () w1
         \<and> fs w1 (pidFile E) = Some (str_nat (getpid E))
         \<and> (\<forall>p. p \<noteq> pidFile E \<longrightarrow> fs w1 p = fs w p)
         \<and> trace w1 = trace w))
   \<and> (setup_services w = Done () wa
        \<and> setup_config E createNewConfig setup_only cfg_override wa = Done () wb
        \<and> pidFileExists E wb \<longrightarrow>
      (\<exists>wx. CherryMusic_init E update createNewConfig dropfiledb setup_only cfg_override w =
               Abort (SystemExit (Message (PidFileExistsMsg (pidFile E)))) wx
         \<and> fs wx = fs wb \<and> stdin wx = stdin wb \<and> config wx = config wb
         \<and> trace wx = trace wb @ [SignalHandler SIGTERM, SignalHandler SIGINT]))"
  by (simp add: create_pid_file_def sys_exit_def write_file_def CherryMusic_init_def Let_def)

theorem create_pid_file_exits_or_writes_witness:
  "pidFileExists demo_env marked_world
   \<and> create_pid_file demo_env marked_world =
       Abort (SystemExit (Message (PidFileExistsMsg ''cherrymusic.pid''))) marked_world
   \<and> \<not> pidFileExists demo_env demo_world
   \<and> fs (final (create_pid_file demo_env demo_world)) ''cherrymusic.pid'' = Some ''4711''
   \<and> aborted (CherryMusic_init demo_env (Some []) False False False [] marked_world) =
       Some (SystemExit (Message (PidFileExistsMsg ''cherrymusic.pid'')))"
proof -
  have a: "pidFileExists demo_env marked_world"
    by (simp add: run_defs marked_world_def)
  have b: "\<not> pidFileExists demo_env demo_world"
    by (simp add: run_defs marked_world_def)
  have p: "pidFile demo_env = ''cherrymusic.pid''"
    by (simp add: demo_env_def)
  have g: "str_nat (getpid demo_env) = ''4711''"
    by code_simp
  have c: "setup_config demo_env False False [] (final (setup_services marked_world)) =
             Done () (final (setup_config demo_env False False []
                               (final (setup_services marked_world))))"
    by (simp add: run_defs marked_world_def Let_def)
  have d: "pidFileExists demo_env
             (final (setup_config demo_env False False [] (final (setup_services marked_world))))"
    by (simp add: run_defs marked_world_def Let_def)
  have s: "setup_services marked_world = Done () (final (setup_services marked_world))"
    by (simp add: setup_services_def final_def)
  note t1 = create_pid_file_exits_or_writes [where E = demo_env and w = marked_world
     and wa = "final (setup_services marked_world)"
     and wb = "final (setup_config demo_env False False []
                        (final (setup_services marked_world)))"
     and createNewConfig = False and setup_only = False and cfg_override = "[]"
     and update = "Some []" and dropfiledb = False]
  note t2 = create_pid_file_exits_or_writes [where E = demo_env and w = demo_world
     and wa = demo_world and wb = demo_world
     and createNewConfig = False and setup_only = False and cfg_override = "[]"
     and update = "Some []" and dropfiledb = False]
  from t1 a s c d have e: "create_pid_file demo_env marked_world =
       Abort (SystemExit (Message (PidFileExistsMsg ''cherrymusic.pid''))) marked_world
     \<and> aborted (CherryMusic_init demo_env (Some []) False False False [] marked_world) =
       Some (SystemExit (Message (PidFileExistsMsg ''cherrymusic.pid'')))"
    by (auto simp add: p aborted_def)
  from t2 b have f:
    "fs (final (create_pid_file demo_env demo_world)) ''cherrymusic.pid'' = Some ''4711''"
    by (auto simp add: p g final_def)
  from a b e f show ?thesis by simp
qed

text \<open>
  C9. \<^verbatim>\<open>delete_pid_file\<close> always returns, and afterwards the process id file
  does not exist and every other file is as before. If the file existed it is removed
  and nothing is printed; if it did not, the files are unchanged and the only effect is
  the message. A second call after the first returns too, changes no file and prints
  the message.
\<close>

theorem delete_pid_file_idempotent:
  "\<exists>w1. delete_pid_file E w = Done () w1
     \<and> \<not> pidFileExists E w1
     \<and> (\<forall>p. p \<noteq> pidFile E \<longrightarrow> fs w1 p = fs w p)
     \<and> (pidFileExists E w \<longrightarrow> trace w1 = trace w)
     \<and> (\<not> pidFileExists E w \<longrightarrow>
          fs w1 = fs w \<and> trace w1 = trace w @ [Print PidFileMissingMsg])
     \<and> (\<exists>w2. delete_pid_file E w1 = Done () w2 \<and> fs w2 = fs w1
          \<and> trace w2 = trace w1 @ [Print PidFileMissingMsg])"
  by (simp add: delete_pid_file_def pidFileExists_def remove_file_def emit_def)

theorem delete_pid_file_idempotent_witness:
  "pidFileExists demo_env marked_world
   \<and> aborted (delete_pid_file demo_env marked_world) = None
   \<and> \<not> pidFileExists demo_env (final (delete_pid_file demo_env marked_world))
   \<and> trace (final (delete_pid_file demo_env marked_world)) = []
   \<and> aborted (delete_pid_file demo_env (final (delete_pid_file demo_env marked_world))) = None
   \<and> trace (final (delete_pid_file demo_env (final (delete_pid_file demo_env marked_world)))) =
       [Print PidFileMissingMsg]"
proof -
  have a: "pidFileExists demo_env marked_world"
    by (simp add: run_defs marked_world_def)
  have t: "trace marked_world = []"
    by (simp add: run_defs marked_world_def)
  from delete_pid_file_idempotent [of demo_env marked_world] a t show ?thesis
    by (auto simp add: final_def aborted_def)
qed

section \<open>The schema check and the update: claims C4, C1 and C2\<close>

text \<open>
  C4. Whenever \<^verbatim>\<open>ensure_current_version\<close> returns false,
  \<^verbatim>\<open>setup_databases\<close> logs "database schema update aborted. quitting." and
  exits with status 1, which is not zero. The state at the exit is the one the check
  returned, with that one log line added: the files, the input and the configuration are
  unchanged, no updater thread is started, and in the constructor the server is never
  started.
\<close>

theorem schema_gate_false_is_fatal:
  assumes "(if dropfiledb then resetdb E (DBNAME E) w else Done () w) = Done () w1"
    and "ensure_current_version E get_user_consent_for_db_schema_update w1 = Done False w2"
  shows "\<exists>wx. setup_databases E update dropfiledb setup_only w = Abort (SystemExit (Code 1)) wx
           \<and> exit_status (SystemExit (Code 1)) \<noteq> 0
           \<and> fs wx = fs w2 \<and> stdin wx = stdin w2 \<and> config wx = config w2
           \<and> trace wx = trace w2 @ [LogI SchemaUpdateAbortedMsg]
           \<and> (setup_services w0 = Done () wa
                \<and> setup_config E createNewConfig setup_only cfg_override wa = Done () wb
                \<and> create_pid_file E (emit (SignalHandler SIGINT) (emit (SignalHandler SIGTERM) wb))
                    = Done () w
              \<longrightarrow> CherryMusic_init E update createNewConfig dropfiledb setup_only cfg_override w0
                    = Abort (SystemExit (Code 1)) wx)"
  using setup_databases_after_gate [OF assms, of update setup_only]
  by (auto simp add: CherryMusic_init_after_pid)

theorem schema_gate_false_is_fatal_witness:
  "aborted (CherryMusic_init stale_env (Some [''music'']) False False False []
              (demo_world\<lparr>stdin := [''no'']\<rparr>)) = Some (SystemExit (Code 1))
   \<and> trace (final (CherryMusic_init stale_env (Some [''music'']) False False False []
              (demo_world\<lparr>stdin := [''no'']\<rparr>))) =
       [Provide ''filecache'', Provide ''cherrymodel'', Provide ''playlist'',
        Provide ''users'', Provide ''useroptions'', Provide ''dbconnector'',
        SignalHandler SIGTERM, SignalHandler SIGINT,
        Print (ConsentPromptMsg [''schema outdated'']), LogI SchemaUpdateAbortedMsg]
   \<and> fs (final (CherryMusic_init stale_env (Some [''music'']) False False False []
              (demo_world\<lparr>stdin := [''no'']\<rparr>))) ''cherrymusic.pid'' = Some ''4711''"
proof -
  let ?w0 = "demo_world\<lparr>stdin := [''no'']\<rparr>"
  let ?wa = "final (setup_services ?w0)"
  let ?wb = "final (setup_config stale_env False False [] ?wa)"
  let ?wc = "final (create_pid_file stale_env
                      (emit (SignalHandler SIGINT) (emit (SignalHandler SIGTERM) ?wb)))"
  let ?w2 = "final (ensure_current_version stale_env get_user_consent_for_db_schema_update ?wc)"
  have n: "strip (lower ''no'') = ''no''"
    by code_simp
  have g: "str_nat 4711 = ''4711''"
    by code_simp
  have s: "setup_services ?w0 = Done () ?wa"
    by (simp add: run_defs stale_env_def)
  have c: "setup_config stale_env False False [] ?wa = Done () ?wb"
    by (simp add: run_defs stale_env_def Let_def)
  have p: "create_pid_file stale_env
             (emit (SignalHandler SIGINT) (emit (SignalHandler SIGTERM) ?wb)) = Done () ?wc"
    by (simp add: run_defs stale_env_def Let_def)
  have h1: "(if False then resetdb stale_env (DBNAME stale_env) ?wc else Done () ?wc)
              = Done () ?wc"
    by simp
  have h2: "ensure_current_version stale_env get_user_consent_for_db_schema_update ?wc
              = Done False ?w2"
    by (simp add: run_defs stale_env_def Let_def n)
  have t: "trace ?w2 =
       [Provide ''filecache'', Provide ''cherrymodel'', Provide ''playlist'',
        Provide ''users'', Provide ''useroptions'', Provide ''dbconnector'',
        SignalHandler SIGTERM, SignalHandler SIGINT,
        Print (ConsentPromptMsg [''schema outdated''])]"
    by (simp add: run_defs stale_env_def Let_def n)
  have f: "fs ?w2 ''cherrymusic.pid'' = Some ''4711''"
    by (simp add: run_defs stale_env_def Let_def n g)
  from schema_gate_false_is_fatal [OF h1 h2, where update = "Some [''music'']"
      and setup_only = False and ?w0.0 = ?w0 and wa = ?wa and wb = ?wb
      and createNewConfig = False and cfg_override = "[]"] s c p t f
  show ?thesis
    by (auto simp add: aborted_def final_def)
qed

text \<open>
  C1 as stated fails: in setup mode with an update request the server is started, and
  without setup mode the run exits with status 0 right after the thread is started.
\<close>

theorem setup_mode_serves_and_update_mode_exits_counterexample:
  "aborted (CherryMusic_init demo_env (Some [''music'']) False False True [] demo_world) = None
   \<and> trace (final (CherryMusic_init demo_env (Some [''music'']) False False True []
                      demo_world)) =
       [Provide ''filecache'', Provide ''cherrymodel'', Provide ''playlist'',
        Provide ''users'', Provide ''useroptions'', Provide ''dbconnector'',
        SignalHandler SIGTERM, SignalHandler SIGINT,
        ThreadStart (PartialUpdate [''music'']), StartServer]
   \<and> aborted (CherryMusic_init demo_env (Some [''music'']) False False False [] demo_world) =
       Some (SystemExit (Code 0))
   \<and> trace (final (CherryMusic_init demo_env (Some [''music'']) False False False []
                      demo_world)) =
       [Provide ''filecache'', Provide ''cherrymodel'', Provide ''playlist'',
        Provide ''users'', Provide ''useroptions'', Provide ''dbconnector'',
        SignalHandler SIGTERM, SignalHandler SIGINT,
        ThreadStart (PartialUpdate [''music'']), Print ExitingMsg]"
  by (simp add: run_defs Let_def)

text \<open>
  C1, amended. Once the schema check has passed: when the run is not in setup mode and
  an update is requested (a list of paths, or the database was dropped), the constructor
  starts the updater thread, deletes the process id file, prints "Exiting..." and exits
  with status 0, without starting the server. In setup mode an update is always
  launched, and the constructor goes on to start the server on the state the thread
  start left, without waiting for the thread.
\<close>

theorem refresh_launch_then_exit_or_serve:
  assumes "setup_services w0 = Done () wa"
    and "setup_config E createNewConfig setup_only cfg_override wa = Done () wb"
    and "create_pid_file E (emit (SignalHandler SIGINT) (emit (SignalHandler SIGTERM) wb))
           = Done () w"
    and "(if dropfiledb then resetdb E (DBNAME E) w else Done () w) = Done () w1"
    and "ensure_current_version E get_user_consent_for_db_schema_update w1 = Done True w2"
  shows "(\<not> setup_only \<and> (dropfiledb \<or> update \<noteq> None) \<longrightarrow>
            (\<exists>wx. CherryMusic_init E update createNewConfig dropfiledb setup_only cfg_override w0
                    = Abort (SystemExit (Code 0)) wx
               \<and> exit_status (SystemExit (Code 0)) = 0
               \<and> \<not> pidFileExists E wx
               \<and> trace wx = trace w2
                    @ [ThreadStart (update_if_necessary (if dropfiledb then Some [] else update))]
                    @ (if pidFileExists E w2 then [] else [Print PidFileMissingMsg])
                    @ [Print ExitingMsg]))
       \<and> (setup_only \<longrightarrow>
            update_if_necessary (or_empty (if dropfiledb then Some [] else update)) \<noteq> NoRefresh
            \<and> CherryMusic_init E update createNewConfig dropfiledb setup_only cfg_override w0 =
                seq (serve E (emit StartServer (emit (ThreadStart (update_if_necessary
                        (or_empty (if dropfiledb then Some [] else update)))) w2)))
                  (\<lambda>u w6. delete_pid_file E w6))"
  using setup_databases_after_gate [OF assms(4,5), of update setup_only]
    CherryMusic_init_after_pid [OF assms(1,2,3), of update dropfiledb]
  by (auto simp add: stopAndCleanUp_exits start_server_def update_if_necessary_or_empty
        pidFileExists_def remove_file_def)


theorem refresh_launch_then_exit_or_serve_witness:
  "aborted (CherryMusic_init demo_env (Some [''music'']) False False False [] demo_world) =
       Some (SystemExit (Code 0))
   \<and> \<not> pidFileExists demo_env
         (final (CherryMusic_init demo_env (Some [''music'']) False False False [] demo_world))
   \<and> trace (final (CherryMusic_init demo_env (Some [''music'']) False False False []
                      demo_world)) =
       [Provide ''filecache'', Provide ''cherrymodel'', Provide ''playlist'',
        Provide ''users'', Provide ''useroptions'', Provide ''dbconnector'',
        SignalHandler SIGTERM, SignalHandler SIGINT,
        ThreadStart (PartialUpdate [''music'']), Print ExitingMsg]
   \<and> aborted (CherryMusic_init demo_env None False False True [] demo_world) = None
   \<and> trace (final (CherryMusic_init demo_env None False False True [] demo_world)) =
       [Provide ''filecache'', Provide ''cherrymodel'', Provide ''playlist'',
        Provide ''users'', Provide ''useroptions'', Provide ''dbconnector'',
        SignalHandler SIGTERM, SignalHandler SIGINT,
        ThreadStart FullUpdate, StartServer]"
proof -
  let ?wa = "final (setup_services demo_world)"
  let ?wb = "final (setup_config demo_env False False [] ?wa)"
  let ?wc = "final (create_pid_file demo_env
                      (emit (SignalHandler SIGINT) (emit (SignalHandler SIGTERM) ?wb)))"
  let ?wb' = "final (setup_config demo_env False True [] ?wa)"
  let ?wc' = "final (create_pid_file demo_env
                      (emit (SignalHandler SIGINT) (emit (SignalHandler SIGTERM) ?wb')))"
  have s: "setup_services demo_world = Done () ?wa"
    by (simp add: run_defs)
  have c: "setup_config demo_env False False [] ?wa = Done () ?wb"
    by (simp add: run_defs Let_def)
  have p: "create_pid_file demo_env
             (emit (SignalHandler SIGINT) (emit (SignalHandler SIGTERM) ?wb)) = Done () ?wc"
    by (simp add: run_defs Let_def)
  have c': "setup_config demo_env False True [] ?wa = Done () ?wb'"
    by (simp add: run_defs Let_def)
  have p': "create_pid_file demo_env
             (emit (SignalHandler SIGINT) (emit (SignalHandler SIGTERM) ?wb')) = Done () ?wc'"
    by (simp add: run_defs Let_def)
  have h1: "(if False then resetdb demo_env (DBNAME demo_env) ?wc else Done () ?wc)
              = Done () ?wc"
    by simp
  have h2: "ensure_current_version demo_env get_user_consent_for_db_schema_update ?wc
              = Done True ?wc"
    by (simp add: demo_env_def)
  have h1': "(if False then resetdb demo_env (DBNAME demo_env) ?wc' else Done () ?wc')
              = Done () ?wc'"
    by simp
  have h2': "ensure_current_version demo_env get_user_consent_for_db_schema_update ?wc'
              = Done True ?wc'"
    by (simp add: demo_env_def)
  have t: "trace ?wc =
       [Provide ''filecache'', Provide ''cherrymodel'', Provide ''playlist'',
        Provide ''users'', Provide ''useroptions'', Provide ''dbconnector'',
        SignalHandler SIGTERM, SignalHandler SIGINT]"
    by (simp add: run_defs Let_def)
  have e: "pidFileExists demo_env ?wc"
    by (simp add: run_defs Let_def)
  have e': "pidFileExists demo_env (emit StartServer (emit (ThreadStart FullUpdate) ?wc'))"
    by (simp add: run_defs Let_def)
  have u: "update_if_necessary (Some [''music'']) = PartialUpdate [''music'']"
    by (simp add: update_if_necessary_def truthy_def)
  have u': "update_if_necessary (or_empty None) = FullUpdate"
    by (simp add: update_if_necessary_def or_empty_def truthy_def)
  have v: "serve demo_env = (\<lambda>w. Done () w)"
    by (simp add: demo_env_def)
  have q: "pidFile demo_env = ''cherrymusic.pid''"
    by (simp add: demo_env_def)
  from refresh_launch_then_exit_or_serve [OF s c p h1 h2, of "Some [''music'']"] t e u
  have a: "aborted (CherryMusic_init demo_env (Some [''music'']) False False False []
                      demo_world) = Some (SystemExit (Code 0))
    \<and> \<not> pidFileExists demo_env
         (final (CherryMusic_init demo_env (Some [''music'']) False False False [] demo_world))
    \<and> trace (final (CherryMusic_init demo_env (Some [''music'']) False False False []
                      demo_world)) =
       [Provide ''filecache'', Provide ''cherrymodel'', Provide ''playlist'',
        Provide ''users'', Provide ''useroptions'', Provide ''dbconnector'',
        SignalHandler SIGTERM, SignalHandler SIGINT,
        ThreadStart (PartialUpdate [''music'']), Print ExitingMsg]"
    by (auto simp add: aborted_def final_def)
  from refresh_launch_then_exit_or_serve [OF s c' p' h1' h2', of None] e'
  have b: "CherryMusic_init demo_env None False False True [] demo_world =
       Done () (remove_file ''cherrymusic.pid'' (emit StartServer (emit (ThreadStart FullUpdate)
         ?wc')))"
    by (simp add: u' v q delete_pid_file_def)
  have t': "trace ?wc' =
       [Provide ''filecache'', Provide ''cherrymodel'', Provide ''playlist'',
        Provide ''users'', Provide ''useroptions'', Provide ''dbconnector'',
        SignalHandler SIGTERM, SignalHandler SIGINT]"
    by (simp add: run_defs Let_def)
  have b': "aborted (CherryMusic_init demo_env None False False True [] demo_world) = None
    \<and> trace (final (CherryMusic_init demo_env None False False True [] demo_world)) =
       [Provide ''filecache'', Provide ''cherrymodel'', Provide ''playlist'',
        Provide ''users'', Provide ''useroptions'', Provide ''dbconnector'',
        SignalHandler SIGTERM, SignalHandler SIGINT,
        ThreadStart FullUpdate, StartServer]"
    unfolding b using t' by (simp add: aborted_def final_def remove_file_def)
  from a b' show ?thesis by simp
qed

text \<open>
  C2 as stated fails: with the database dropped and a stale schema, the operator is
  still asked for consent, and a refusal ends the run with status 1 and no update.
\<close>

theorem dropfiledb_still_gated_counterexample:
  "aborted (setup_databases stale_env (Some [''music'']) True False
              (demo_world\<lparr>stdin := [''no'']\<rparr>)) = Some (SystemExit (Code 1))
   \<and> trace (final (setup_databases stale_env (Some [''music'']) True False
              (demo_world\<lparr>stdin := [''no'']\<rparr>))) =
       [Print (ConsentPromptMsg [''schema outdated'']), LogI SchemaUpdateAbortedMsg]"
proof -
  have n: "strip (lower ''no'') = ''no''"
    by code_simp
  show ?thesis
    by (simp add: run_defs stale_env_def Let_def n)
qed

text \<open>
  C2, amended. With the drop request set, \<^verbatim>\<open>resetdb\<close> runs first and without
  any consent; the schema check is then called on the state the reset left. If it
  returns true the updater thread is started with a full update, whatever paths were
  given; if it returns false the run exits with status 1 and starts no update.
\<close>

theorem dropfiledb_resets_then_gates_then_full:
  assumes "resetdb E (DBNAME E) w = Done () w1"
    and "ensure_current_version E get_user_consent_for_db_schema_update w1 = Done ready w2"
  shows "setup_databases E update True setup_only w =
     (if \<not> ready then Abort (SystemExit (Code 1)) (emit (LogI SchemaUpdateAbortedMsg) w2)
      else if setup_only then Done () (emit (ThreadStart FullUpdate) w2)
      else stopAndCleanUp E (emit (ThreadStart FullUpdate) w2))"
proof -
  have r: "(if True then resetdb E (DBNAME E) w else Done () w) = Done () w1"
    using assms(1) by simp
  have f: "update_if_necessary (Some []) = FullUpdate"
    "update_if_necessary (or_empty (Some [])) = FullUpdate"
    by (simp_all add: update_if_necessary_def or_empty_def truthy_def)
  from setup_databases_after_gate [OF r assms(2), of update setup_only] show ?thesis
    by (simp add: f)
qed

theorem dropfiledb_resets_then_gates_then_full_witness:
  "setup_databases stale_env (Some [''music'']) True True (demo_world\<lparr>stdin := ['' Y '']\<rparr>) =
     Done () (emit (ThreadStart FullUpdate)
       ((emit (Print (ConsentPromptMsg [''schema outdated'']))
           (demo_world\<lparr>stdin := ['' Y '']\<rparr>))\<lparr>stdin := []\<rparr>))"
proof -
  let ?w = "demo_world\<lparr>stdin := ['' Y '']\<rparr>"
  let ?w2 = "(emit (Print (ConsentPromptMsg [''schema outdated''])) ?w)\<lparr>stdin := []\<rparr>"
  have n: "strip (lower '' Y '') = ''y''"
    by code_simp
  have h1: "resetdb stale_env (DBNAME stale_env) ?w = Done () ?w"
    by (simp add: stale_env_def demo_env_def)
  have h2: "ensure_current_version stale_env get_user_consent_for_db_schema_update ?w
              = Done True ?w2"
    by (simp add: stale_env_def demo_env_def get_user_consent_for_db_schema_update_def
          Let_def n)
  from dropfiledb_resets_then_gates_then_full [OF h1 h2, of "Some [''music'']" True]
  show ?thesis by simp
qed

section \<open>The first run: claim C3\<close>

text \<open>
  C3 as stated fails: without a configuration file, a run with the old file locations in
  use prints the migration notice and exits with status 1, writing nothing; and a run
  asked for a new configuration writes the defaults next to the configuration file's
  path, not to it, before it even looks for the file.
\<close>

theorem missing_config_other_exits_counterexample:
  "fs empty_world ''cherrymusic.conf'' = None
   \<and> aborted (setup_config fallback_env False False [] empty_world) =
        Some (SystemExit (Code 1))
   \<and> fs (final (setup_config fallback_env False False [] empty_world)) ''cherrymusic.conf''
        = None
   \<and> trace (final (setup_config fallback_env False False [] empty_world)) =
        [Print (MigrationNoticeMsg ''cherrymusic.conf'')]
   \<and> aborted (setup_config demo_env True False [] empty_world) = Some (SystemExit (Code 0))
   \<and> fs (final (setup_config demo_env True False [] empty_world)) ''cherrymusic.conf'' = None
   \<and> fs (final (setup_config demo_env True False [] empty_world)) ''cherrymusic.conf.new''
        = Some ''ab''
   \<and> trace (final (setup_config demo_env True False [] empty_world)) =
        [LogI (NewConfigWrittenMsg ''cherrymusic.conf.new'')]"
  by (simp add: run_defs fallback_env_def Let_def)

text \<open>
  C3, amended. If no new configuration was requested, and after the in-browser setup (if
  any) has returned there is no configuration file and the old file locations are not in
  use, \<^verbatim>\<open>setup_config\<close> writes the default configuration to the configuration
  file's path, prints the welcome text that names the file, and exits with status 0; the
  constructor ends with that exit.
\<close>

theorem first_run_writes_defaults_and_exits:
  assumes "(if setup_only
            then configureAndStartCherryPy E (pop_value ''server.port'' cfg_override) w
            else Done () w) = Done () w1"
    and "\<not> createNewConfig"
    and "\<not> configurationFileExists E w1"
    and "\<not> fallbackPathInUse E w1"
  shows "\<exists>wx. setup_config E createNewConfig setup_only cfg_override w
                = Abort (SystemExit (Code 0)) wx
     \<and> exit_status (SystemExit (Code 0)) = 0
     \<and> fs wx = (fs w1)(configurationFile E \<mapsto> serialize E (from_defaults E))
     \<and> trace wx = trace w1 @ [Print (WelcomeMsg (configurationFile E))]
     \<and> (setup_services w0 = Done () w \<longrightarrow>
          CherryMusic_init E update createNewConfig dropfiledb setup_only cfg_override w0
            = Abort (SystemExit (Code 0)) wx)"
  using assms
  by (simp add: setup_config_def CherryMusic_init_def Let_def printWelcomeAndExit_def
        sys_exit_def write_file_def)

theorem first_run_writes_defaults_and_exits_witness:
  "aborted (CherryMusic_init demo_env None False False False [] empty_world) =
     Some (SystemExit (Code 0))
   \<and> fs (final (CherryMusic_init demo_env None False False False [] empty_world))
        ''cherrymusic.conf'' = Some ''ab''
   \<and> trace (final (CherryMusic_init demo_env None False False False [] empty_world)) =
       [Provide ''filecache'', Provide ''cherrymodel'', Provide ''playlist'',
        Provide ''users'', Provide ''useroptions'', Provide ''dbconnector'',
        Print (WelcomeMsg ''cherrymusic.conf'')]"
proof -
  let ?wa = "final (setup_services empty_world)"
  have s: "setup_services empty_world = Done () ?wa"
    by (simp add: run_defs)
  have h1: "(if False
            then configureAndStartCherryPy demo_env (pop_value ''server.port'' []) ?wa
            else Done () ?wa) = Done () ?wa"
    by simp
  have h2: "\<not> False"
    by simp
  have h3: "\<not> configurationFileExists demo_env ?wa"
    by (simp add: run_defs)
  have h4: "\<not> fallbackPathInUse demo_env ?wa"
    by (simp add: demo_env_def)
  have t: "trace ?wa =
       [Provide ''filecache'', Provide ''cherrymodel'', Provide ''playlist'',
        Provide ''users'', Provide ''useroptions'', Provide ''dbconnector'']"
    by (simp add: run_defs)
  have c: "configurationFile demo_env = ''cherrymusic.conf''"
    "serialize demo_env (from_defaults demo_env) = ''ab''"
    by (simp_all add: demo_env_def)
  from first_run_writes_defaults_and_exits [OF h1 h2 h3 h4, where ?w0.0 = empty_world
      and update = None and dropfiledb = False] s t
  show ?thesis
    by (auto simp add: aborted_def final_def c)
qed

section \<open>The consent prompt: claim C10\<close>

text \<open>Lower-casing keeps white space apart from the rest, and only \<open>y\<close> and \<open>Y\<close> become \<open>y\<close>.\<close>

lemma of_char_lower_char:
  "(of_char (lower_char c) :: nat) =
     (if (65 \<le> (of_char c :: nat) \<and> (of_char c :: nat) \<le> 90)
         \<or> (192 \<le> (of_char c :: nat) \<and> (of_char c :: nat) \<le> 222 \<and> (of_char c :: nat) \<noteq> 215)
      then of_char c + 32 else of_char c)"
  by (auto simp add: lower_char_def Let_def of_char_of)

lemma isspace_lower_char: "isspace (lower_char c) = isspace c"
  unfolding isspace_def Let_def of_char_lower_char by auto

lemma lower_char_eq_y:
  "lower_char c = CHR ''y'' \<longleftrightarrow> c = CHR ''y'' \<or> c = CHR ''Y''"
proof -
  have "lower_char c = CHR ''y'' \<longleftrightarrow> (of_char (lower_char c) :: nat) = of_char CHR ''y''"
    by (simp only: of_char_eq_iff)
  also have "\<dots> \<longleftrightarrow> (of_char c :: nat) = 121 \<or> (of_char c :: nat) = 89"
    unfolding of_char_lower_char by auto
  also have "\<dots> \<longleftrightarrow> (of_char c :: nat) = of_char CHR ''y'' \<or> (of_char c :: nat) = of_char CHR ''Y''"
    by simp
  also have "\<dots> \<longleftrightarrow> c = CHR ''y'' \<or> c = CHR ''Y''"
    by (simp only: of_char_eq_iff)
  finally show ?thesis .
qed

lemma not_isspace_y: "\<not> isspace CHR ''y''"
  by (simp add: isspace_def)

lemma strip_decompose:
  "\<exists>a b. s = a @ strip s @ b \<and> (\<forall>x\<in>set a. isspace x) \<and> (\<forall>x\<in>set b. isspace x)"
proof -
  let ?a = "takeWhile isspace s"
  let ?s' = "dropWhile isspace s"
  let ?b = "rev (takeWhile isspace (rev ?s'))"
  have "rev (takeWhile isspace (rev ?s') @ dropWhile isspace (rev ?s')) = ?s'"
    by (simp only: takeWhile_dropWhile_id rev_rev_ident)
  then have "strip s @ ?b = ?s'"
    by (simp only: rev_append strip_def)
  then have "?a @ strip s @ ?b = s"
    by (simp only: takeWhile_dropWhile_id)
  moreover have "\<forall>x\<in>set ?a. isspace x"
    by (auto dest: set_takeWhileD)
  moreover have "\<forall>x\<in>set ?b. isspace x"
    by (auto dest: set_takeWhileD)
  ultimately show ?thesis by metis
qed

lemma strip_sandwich:
  assumes "\<forall>x\<in>set a. isspace x" and "\<forall>x\<in>set b. isspace x" and "\<not> isspace c"
  shows "strip (a @ [c] @ b) = [c]"
proof -
  have "dropWhile isspace (a @ [c] @ b) = c # b"
    using assms by (simp add: dropWhile_append3)
  moreover have "dropWhile isspace (rev b @ [c]) = dropWhile isspace [c]"
    using assms by (intro dropWhile_append2) simp
  ultimately show ?thesis using assms by (simp add: strip_def)
qed

lemma strip_eq_y:
  "strip s = ''y'' \<longleftrightarrow>
     (\<exists>a b. s = a @ ''y'' @ b \<and> (\<forall>x\<in>set a. isspace x) \<and> (\<forall>x\<in>set b. isspace x))"
proof
  assume "strip s = ''y''"
  with strip_decompose [of s] show
    "\<exists>a b. s = a @ ''y'' @ b \<and> (\<forall>x\<in>set a. isspace x) \<and> (\<forall>x\<in>set b. isspace x)"
    by simp
next
  assume "\<exists>a b. s = a @ ''y'' @ b \<and> (\<forall>x\<in>set a. isspace x) \<and> (\<forall>x\<in>set b. isspace x)"
  then show "strip s = ''y''"
    using strip_sandwich [OF _ _ not_isspace_y] by auto
qed

lemma isspace_lower: "(\<forall>x\<in>set (lower s). isspace x) = (\<forall>x\<in>set s. isspace x)"
  by (simp add: lower_def isspace_lower_char)

lemma consent_answer:
  "strip (lower s) = ''y'' \<longleftrightarrow>
     (\<exists>a c b. s = a @ [c] @ b \<and> (c = CHR ''y'' \<or> c = CHR ''Y'')
        \<and> (\<forall>x\<in>set a. isspace x) \<and> (\<forall>x\<in>set b. isspace x))"
proof
  assume "strip (lower s) = ''y''"
  then obtain a b where ab: "lower s = a @ ''y'' @ b"
    and spa: "\<forall>x\<in>set a. isspace x" and spb: "\<forall>x\<in>set b. isspace x"
    unfolding strip_eq_y by blast
  from ab obtain us vs where s: "s = us @ vs" and a: "a = lower us"
    and vs: "''y'' @ b = lower vs"
    unfolding lower_def by (auto simp add: map_eq_append_conv)
  from vs obtain z zs where vz: "vs = z # zs" and z: "lower_char z = CHR ''y''"
    and b: "b = lower zs"
    unfolding lower_def by (auto simp add: Cons_eq_map_conv)
  from spa a have "\<forall>x\<in>set us. isspace x"
    by (simp add: isspace_lower)
  moreover from spb b have "\<forall>x\<in>set zs. isspace x"
    by (simp add: isspace_lower)
  moreover from z have "z = CHR ''y'' \<or> z = CHR ''Y''"
    by (simp add: lower_char_eq_y)
  moreover from s vz have "s = us @ [z] @ zs"
    by simp
  ultimately show "\<exists>a c b. s = a @ [c] @ b \<and> (c = CHR ''y'' \<or> c = CHR ''Y'')
        \<and> (\<forall>x\<in>set a. isspace x) \<and> (\<forall>x\<in>set b. isspace x)"
    by blast
next
  assume "\<exists>a c b. s = a @ [c] @ b \<and> (c = CHR ''y'' \<or> c = CHR ''Y'')
        \<and> (\<forall>x\<in>set a. isspace x) \<and> (\<forall>x\<in>set b. isspace x)"
  then obtain a c b where s: "s = a @ [c] @ b" and c: "c = CHR ''y'' \<or> c = CHR ''Y''"
    and spa: "\<forall>x\<in>set a. isspace x" and spb: "\<forall>x\<in>set b. isspace x"
    by blast
  from c have "lower_char c = CHR ''y''"
    by (simp add: lower_char_eq_y)
  with s have "lower s = lower a @ ''y'' @ lower b"
    by (simp add: lower_def)
  moreover from spa have "\<forall>x\<in>set (lower a). isspace x"
    by (simp add: isspace_lower)
  moreover from spb have "\<forall>x\<in>set (lower b). isspace x"
    by (simp add: isspace_lower)
  ultimately show "strip (lower s) = ''y''"
    unfolding strip_eq_y by blast
qed

text \<open>
  C10. With a line to read, \<^verbatim>\<open>_get_user_consent_for_db_schema_update\<close> prints
  the prompt, consumes the line and returns whether the line, lower-cased and stripped,
  is exactly \<open>y\<close>. That is the case if and only if the line is a single \<open>y\<close> or
  \<open>Y\<close> with nothing but white space around it; so \<open>yes\<close> and the empty line are
  refusals.
\<close>

theorem consent_only_for_y:
  assumes "stdin w = line # rest"
  shows "\<exists>w1. get_user_consent_for_db_schema_update reasons w
                 = Done (strip (lower line) = ''y'') w1
     \<and> stdin w1 = rest \<and> fs w1 = fs w
     \<and> trace w1 = trace w @ [Print (ConsentPromptMsg reasons)]
     \<and> ((strip (lower line) = ''y'') \<longleftrightarrow>
          (\<exists>a c b. line = a @ [c] @ b \<and> (c = CHR ''y'' \<or> c = CHR ''Y'')
             \<and> (\<forall>x\<in>set a. isspace x) \<and> (\<forall>x\<in>set b. isspace x)))"
  using assms consent_answer [of line]
  by (simp add: get_user_consent_for_db_schema_update_def Let_def)

theorem consent_only_for_y_witness:
  "get_user_consent_for_db_schema_update [] (empty_world\<lparr>stdin := ['' Y'' @ [CHR 0x0A]]\<rparr>)
     = Done True (emit (Print (ConsentPromptMsg [])) empty_world)
   \<and> get_user_consent_for_db_schema_update [] (empty_world\<lparr>stdin := [''yes'']\<rparr>)
     = Done False (emit (Print (ConsentPromptMsg [])) empty_world)
   \<and> get_user_consent_for_db_schema_update [] (empty_world\<lparr>stdin := [[]]\<rparr>)
     = Done False (emit (Print (ConsentPromptMsg [])) empty_world)"
proof -
  have a: "stdin (empty_world\<lparr>stdin := ['' Y'' @ [CHR 0x0A]]\<rparr>) = ('' Y'' @ [CHR 0x0A]) # []"
    "stdin (empty_world\<lparr>stdin := [''yes'']\<rparr>) = ''yes'' # []"
    "stdin (empty_world\<lparr>stdin := [[]]\<rparr>) = [] # []"
    by simp_all
  have n: "strip (lower ('' Y'' @ [CHR 0x0A])) = ''y''" "strip (lower ''yes'') = ''yes''"
    "strip (lower []) = []"
    by code_simp+
  from consent_only_for_y [OF a(1), of "[]"] obtain w1 where
    e1: "get_user_consent_for_db_schema_update []
           (empty_world\<lparr>stdin := ['' Y'' @ [CHR 0x0A]]\<rparr>)
         = Done (strip (lower ('' Y'' @ [CHR 0x0A])) = ''y'') w1"
    and f1: "stdin w1 = []" "fs w1 = fs (empty_world\<lparr>stdin := ['' Y'' @ [CHR 0x0A]]\<rparr>)"
      "trace w1 = trace (empty_world\<lparr>stdin := ['' Y'' @ [CHR 0x0A]]\<rparr>)
                    @ [Print (ConsentPromptMsg [])]"
    by blast
  from consent_only_for_y [OF a(2), of "[]"] obtain w2 where
    e2: "get_user_consent_for_db_schema_update [] (empty_world\<lparr>stdin := [''yes'']\<rparr>)
         = Done (strip (lower ''yes'') = ''y'') w2"
    by blast
  from consent_only_for_y [OF a(3), of "[]"] obtain w3 where
    e3: "get_user_consent_for_db_schema_update [] (empty_world\<lparr>stdin := [[]]\<rparr>)
         = Done (strip (lower []) = ''y'') w3"
    by blast
  from e1 e2 e3 show ?thesis
    unfolding n
    by (simp add: get_user_consent_for_db_schema_update_def Let_def emit_def empty_world_def)
qed

section \<open>Configuration diagnostics: claim C7\<close>

text \<open>The two loops compute the new and the deprecated keys, each shown through \<^verbatim>\<open>transform\<close>.\<close>

lemma collect_new_eq:
  "collect_new ps known_config new = new @ map transform (new_keys ps known_config)"
  by (induction ps arbitrary: new) (simp_all add: new_keys_def)

lemma collect_deprecated_eq:
  "collect_deprecated ps default_cfg deprecated =
     deprecated @ map transform (deprecated_keys default_cfg ps)"
  by (induction ps arbitrary: deprecated) (simp_all add: deprecated_keys_def)

text \<open>
  C7. \<^verbatim>\<open>_check_for_config_updates\<close> always returns and changes nothing but
  the log. It reports as new exactly the keys that are in the defaults, not in the
  configuration file and not hidden, and as deprecated exactly the keys that are in the
  configuration file and not in the defaults, each key in the form
  \<^verbatim>\<open>[section]: name\<close>; a list that is empty is not reported, and the hint
  about \<^verbatim>\<open>--newconfig\<close> follows when either list is not empty.
\<close>

theorem check_for_config_updates_reports:
  "\<exists>w1. check_for_config_updates default_cfg known_config w = Done () w1
     \<and> fs w1 = fs w \<and> stdin w1 = stdin w \<and> config w1 = config w
     \<and> trace w1 = trace w
         @ (if new_keys default_cfg known_config = [] then []
            else [LogI (NewOptionsMsg (map transform (new_keys default_cfg known_config)))])
         @ (if deprecated_keys default_cfg known_config = [] then []
            else [LogI (DeprecatedOptionsMsg
                          (map transform (deprecated_keys default_cfg known_config)))])
         @ (if new_keys default_cfg known_config = []
               \<and> deprecated_keys default_cfg known_config = [] then []
            else [LogI NewConfigHintMsg])
     \<and> (\<forall>k. k \<in> set (new_keys default_cfg known_config) \<longleftrightarrow>
            k \<notin> set (cfg_keys known_config)
            \<and> (\<exists>p\<in>set default_cfg. key p = k \<and> \<not> hidden p))
     \<and> (\<forall>k. k \<in> set (deprecated_keys default_cfg known_config) \<longleftrightarrow>
            k \<in> set (cfg_keys known_config) \<and> k \<notin> set (cfg_keys default_cfg))"
proof -
  have a: "\<forall>k. k \<in> set (new_keys default_cfg known_config) \<longleftrightarrow>
            k \<notin> set (cfg_keys known_config)
            \<and> (\<exists>p\<in>set default_cfg. key p = k \<and> \<not> hidden p)"
    by (auto simp add: new_keys_def)
  have b: "\<forall>k. k \<in> set (deprecated_keys default_cfg known_config) \<longleftrightarrow>
            k \<in> set (cfg_keys known_config) \<and> k \<notin> set (cfg_keys default_cfg)"
    by (auto simp add: deprecated_keys_def cfg_keys_def)
  have c: "check_for_config_updates default_cfg known_config w =
      Done () (w\<lparr>trace := trace w
         @ (if new_keys default_cfg known_config = [] then []
            else [LogI (NewOptionsMsg (map transform (new_keys default_cfg known_config)))])
         @ (if deprecated_keys default_cfg known_config = [] then []
            else [LogI (DeprecatedOptionsMsg
                          (map transform (deprecated_keys default_cfg known_config)))])
         @ (if new_keys default_cfg known_config = []
               \<and> deprecated_keys default_cfg known_config = [] then []
            else [LogI NewConfigHintMsg])\<rparr>)"
    by (simp add: check_for_config_updates_def Let_def collect_new_eq collect_deprecated_eq
          emit_def)
  show ?thesis
    unfolding c using a b by simp
qed

theorem check_for_config_updates_reports_witness:
  "check_for_config_updates
      [\<lparr>key = ''a'', pvalue = PInt 1, hidden = False\<rparr>,
       \<lparr>key = ''b'', pvalue = PInt 2, hidden = True\<rparr>]
      [\<lparr>key = ''a'', pvalue = PInt 5, hidden = False\<rparr>] empty_world = Done () empty_world
   \<and> trace (final (check_for_config_updates
      [\<lparr>key = ''a'', pvalue = PInt 1, hidden = False\<rparr>]
      [\<lparr>key = ''a'', pvalue = PInt 1, hidden = False\<rparr>,
       \<lparr>key = ''server.z'', pvalue = PInt 9, hidden = False\<rparr>] empty_world)) =
      [LogI (DeprecatedOptionsMsg [''[server]: z'']), LogI NewConfigHintMsg]
   \<and> trace (final (check_for_config_updates
      [\<lparr>key = ''a'', pvalue = PInt 1, hidden = False\<rparr>,
       \<lparr>key = ''media.basedir'', pvalue = PStr ''m'', hidden = False\<rparr>,
       \<lparr>key = ''b'', pvalue = PInt 2, hidden = True\<rparr>]
      [\<lparr>key = ''a'', pvalue = PInt 1, hidden = False\<rparr>] empty_world)) =
      [LogI (NewOptionsMsg [''[media]: basedir'']), LogI NewConfigHintMsg]"
proof -
  let ?d1 = "[\<lparr>key = ''a'', pvalue = PInt 1, hidden = False\<rparr>,
       \<lparr>key = ''b'', pvalue = PInt 2, hidden = True\<rparr>]"
  let ?k1 = "[\<lparr>key = ''a'', pvalue = PInt 5, hidden = False\<rparr>]"
  let ?d2 = "[\<lparr>key = ''a'', pvalue = PInt 1, hidden = False\<rparr>]"
  let ?k2 = "[\<lparr>key = ''a'', pvalue = PInt 1, hidden = False\<rparr>,
       \<lparr>key = ''server.z'', pvalue = PInt 9, hidden = False\<rparr>]"
  let ?d3 = "[\<lparr>key = ''a'', pvalue = PInt 1, hidden = False\<rparr>,
       \<lparr>key = ''media.basedir'', pvalue = PStr ''m'', hidden = False\<rparr>,
       \<lparr>key = ''b'', pvalue = PInt 2, hidden = True\<rparr>]"
  have n: "new_keys ?d1 ?k1 = []" "deprecated_keys ?d1 ?k1 = []"
    "new_keys ?d2 ?k2 = []" "deprecated_keys ?d2 ?k2 = [''server.z'']"
    "new_keys ?d3 ?d2 = [''media.basedir'']" "deprecated_keys ?d3 ?d2 = []"
    by (simp_all add: new_keys_def deprecated_keys_def cfg_keys_def)
  have t: "transform ''server.z'' = ''[server]: z''"
    "transform ''media.basedir'' = ''[media]: basedir''"
    by (simp_all add: transform_def partition_dot_def)
  from check_for_config_updates_reports [of ?d1 ?k1 empty_world] obtain w1 where
    e1: "check_for_config_updates ?d1 ?k1 empty_world = Done () w1"
    and f1: "fs w1 = fs empty_world" "stdin w1 = stdin empty_world"
      "config w1 = config empty_world" "trace w1 = trace empty_world"
    unfolding n by auto
  from f1 have "w1 = empty_world"
    by simp
  with e1 have r1: "check_for_config_updates ?d1 ?k1 empty_world = Done () empty_world"
    by simp
  from check_for_config_updates_reports [of ?d2 ?k2 empty_world] obtain w2 where
    e2: "check_for_config_updates ?d2 ?k2 empty_world = Done () w2"
    and f2: "trace w2 = trace empty_world
       @ [LogI (DeprecatedOptionsMsg [''[server]: z'']), LogI NewConfigHintMsg]"
    unfolding n by (auto simp add: t)
  from check_for_config_updates_reports [of ?d3 ?d2 empty_world] obtain w3 where
    e3: "check_for_config_updates ?d3 ?d2 empty_world = Done () w3"
    and f3: "trace w3 = trace empty_world
       @ [LogI (NewOptionsMsg [''[media]: basedir'']), LogI NewConfigHintMsg]"
    unfolding n by (auto simp add: t)
  from r1 e2 f2 e3 f3 show ?thesis
    by (simp add: final_def empty_world_def)
qed

section \<open>Configuration layers: claims C5 and C6\<close>

text \<open>With \<^verbatim>\<open>log.e\<close> as the handler, an overlay always completes: it yields \<open>overlay\<close> and logs the rejected entries in order.\<close>

lemma cfg_get_set_value:
  "cfg_get (set_value c k v) k' = (if k' = k then Some v else cfg_get c k')"
  by (induction c) (auto simp add: cfg_get_def items_def)

lemma replace_log_e:
  "replace E base other log_e w =
     Done (overlay E base other)
       (w\<lparr>trace := trace w @ map (\<lambda>kv. LogE (ConfigErrorMsg (fst kv) (snd kv)))
                                (rejected E other)\<rparr>)"
proof (induction other arbitrary: base w)
  case Nil
  then show ?case by (simp add: rejected_def)
next
  case (Cons kv rest)
  obtain k v where kv: "kv = (k, v)" by (cases kv)
  show ?case
    unfolding kv using Cons.IH
    by (simp add: rejected_def log_e_def emit_def)
qed

lemma map_of_accepted_None:
  "k \<notin> fst ` set other \<Longrightarrow> map_of (accepted E other) k = None"
  by (auto simp add: accepted_def map_of_eq_None_iff)

lemma cfg_get_overlay:
  "distinct (map fst other) \<Longrightarrow>
     cfg_get (overlay E base other) k =
       (case map_of (accepted E other) k of Some v \<Rightarrow> Some v | None \<Rightarrow> cfg_get base k)"
proof (induction other arbitrary: base)
  case Nil
  then show ?case by (simp add: accepted_def)
next
  case (Cons kv rest)
  obtain k0 v0 where kv: "kv = (k0, v0)" by (cases kv)
  from Cons.prems kv have d: "distinct (map fst rest)" and n: "k0 \<notin> fst ` set rest"
    by simp_all
  have r: "map_of (accepted E rest) k0 = None"
    using n by (rule map_of_accepted_None)
  have a: "accepted E ((k0, v0) # rest) =
             (if accepts E k0 v0 then (k0, v0) # accepted E rest else accepted E rest)"
    by (simp add: accepted_def)
  show ?case
  proof (cases "accepts E k0 v0")
    case True
    then show ?thesis
      using Cons.IH [OF d, of "set_value base k0 v0"] r
      by (cases "k = k0") (simp_all add: kv a cfg_get_set_value split: option.splits)
  next
    case False
    then show ?thesis
      using Cons.IH [OF d, of base]
      by (simp add: kv a)
  qed
qed

lemma map_of_accepted:
  "distinct (map fst other) \<Longrightarrow> (k, v) \<in> set other \<Longrightarrow>
     map_of (accepted E other) k = (if accepts E k v then Some v else None)"
proof (induction other)
  case Nil
  then show ?case by simp
next
  case (Cons kv rest)
  obtain k0 v0 where kv: "kv = (k0, v0)" by (cases kv)
  show ?case
  proof (cases "(k, v) = kv")
    case True
    with Cons.prems kv have "k \<notin> fst ` set rest" by auto
    then have "map_of (accepted E rest) k = None" by (rule map_of_accepted_None)
    with True kv show ?thesis by (simp add: accepted_def)
  next
    case False
    with Cons.prems have m: "(k, v) \<in> set rest" and d: "distinct (map fst rest)"
      by auto
    from Cons.prems kv m have "k \<noteq> k0" by force
    with Cons.IH [OF d m] kv show ?thesis by (simp add: accepted_def)
  qed
qed

lemma init_config_result:
  assumes "from_configparser E (configurationFile E) w = Done filecfg w1"
  shows "\<exists>wx. init_config E override_dict w = Done () wx
     \<and> config wx = Some (overlay E (overlay E (from_defaults E) (items filecfg)) override_dict)
     \<and> fs wx = fs w1 \<and> stdin wx = stdin w1
     \<and> (\<exists>diagnostics. trace wx = trace w1
           @ map (\<lambda>kv. LogE (ConfigErrorMsg (fst kv) (snd kv))) (rejected E (items filecfg))
           @ map (\<lambda>kv. LogE (ConfigErrorMsg (fst kv) (snd kv))) (rejected E override_dict)
           @ diagnostics)"
  using assms
  by (simp add: init_config_def Let_def replace_log_e check_for_config_updates_def emit_def)

lemma map_fst_items: "map fst (items c) = cfg_keys c"
  by (simp add: items_def cfg_keys_def)

text \<open>
  C5 as stated fails: an override that the configuration layer rejects is present in the
  override layer, yet the effective value of its key is the one from the configuration
  file.
\<close>

theorem rejected_override_is_not_effective_counterexample:
  "map_of [(''a'', PStr ''bad'')] ''a'' = Some (PStr ''bad'')
   \<and> aborted (init_config demo_env [(''a'', PStr ''bad'')] demo_world) = None
   \<and> config (final (init_config demo_env [(''a'', PStr ''bad'')] demo_world)) =
       Some [\<lparr>key = ''a'', pvalue = PInt 5, hidden = False\<rparr>,
             \<lparr>key = ''b'', pvalue = PInt 2, hidden = True\<rparr>]
   \<and> trace (final (init_config demo_env [(''a'', PStr ''bad'')] demo_world)) =
       [LogE (ConfigErrorMsg ''a'' (PStr ''bad''))]"
  by (simp add: run_defs Let_def)

text \<open>
  C5, amended. For every key, the effective configuration that \<^verbatim>\<open>_init_config\<close>
  stores holds the override's value if the key is in the overrides with a value the
  configuration layer accepts; otherwise the file's value if the key is in the
  configuration file with an accepted value; otherwise the default, if any. Keys are
  unique within the file and within the overrides.
\<close>

theorem effective_config_layers:
  assumes "from_configparser E (configurationFile E) w = Done filecfg w1"
    and "distinct (cfg_keys filecfg)"
    and "distinct (map fst override_dict)"
  shows "\<exists>effective wx. init_config E override_dict w = Done () wx
     \<and> config wx = Some effective
     \<and> (\<forall>k. cfg_get effective k =
          (case map_of (accepted E override_dict) k of
             Some v \<Rightarrow> Some v
           | None \<Rightarrow>
              (case map_of (accepted E (items filecfg)) k of
                 Some v \<Rightarrow> Some v
               | None \<Rightarrow> cfg_get (from_defaults E) k)))"
proof -
  from init_config_result [OF assms(1), of override_dict] obtain wx where
    r: "init_config E override_dict w = Done () wx"
    and c: "config wx =
              Some (overlay E (overlay E (from_defaults E) (items filecfg)) override_dict)"
    by blast
  have d: "distinct (map fst (items filecfg))"
    using assms(2) by (simp add: map_fst_items)
  have "\<forall>k. cfg_get (overlay E (overlay E (from_defaults E) (items filecfg)) override_dict) k =
          (case map_of (accepted E override_dict) k of
             Some v \<Rightarrow> Some v
           | None \<Rightarrow>
              (case map_of (accepted E (items filecfg)) k of
                 Some v \<Rightarrow> Some v
               | None \<Rightarrow> cfg_get (from_defaults E) k))"
    by (simp add: cfg_get_overlay [OF assms(3)] cfg_get_overlay [OF d] split: option.splits)
  with r c show ?thesis by blast
qed

theorem effective_config_layers_witness:
  "aborted (init_config demo_env [(''b'', PInt 3)] demo_world) = None
   \<and> (\<exists>effective. config (final (init_config demo_env [(''b'', PInt 3)] demo_world))
                       = Some effective
        \<and> cfg_get effective ''a'' = Some (PInt 5)
        \<and> cfg_get effective ''b'' = Some (PInt 3)
        \<and> cfg_get effective ''c'' = None)"
proof -
  have h1: "from_configparser demo_env (configurationFile demo_env) demo_world =
              Done [\<lparr>key = ''a'', pvalue = PInt 5, hidden = False\<rparr>] demo_world"
    by (simp add: demo_env_def)
  have h2: "distinct (cfg_keys [\<lparr>key = ''a'', pvalue = PInt 5, hidden = False\<rparr>])"
    by (simp add: cfg_keys_def)
  have h3: "distinct (map fst [(''b'', PInt 3)])"
    by simp
  have e: "accepted demo_env [(''b'', PInt 3)] = [(''b'', PInt 3)]"
    "accepted demo_env (items [\<lparr>key = ''a'', pvalue = PInt 5, hidden = False\<rparr>])
       = [(''a'', PInt 5)]"
    "cfg_get (from_defaults demo_env) ''a'' = Some (PInt 1)"
    "cfg_get (from_defaults demo_env) ''b'' = Some (PInt 2)"
    "cfg_get (from_defaults demo_env) ''c'' = None"
    by (simp_all add: accepted_def items_def demo_env_def cfg_get_def)
  from effective_config_layers [OF h1 h2 h3] obtain effective wx where
    r: "init_config demo_env [(''b'', PInt 3)] demo_world = Done () wx"
    and c: "config wx = Some effective"
    and l: "\<forall>k. cfg_get effective k =
          (case map_of (accepted demo_env [(''b'', PInt 3)]) k of
             Some v \<Rightarrow> Some v
           | None \<Rightarrow>
              (case map_of (accepted demo_env
                              (items [\<lparr>key = ''a'', pvalue = PInt 5, hidden = False\<rparr>])) k of
                 Some v \<Rightarrow> Some v
               | None \<Rightarrow> cfg_get (from_defaults demo_env) k))"
    by blast
  from l have "cfg_get effective ''a'' = Some (PInt 5)"
    "cfg_get effective ''b'' = Some (PInt 3)" "cfg_get effective ''c'' = None"
    by (simp_all add: e)
  with r c show ?thesis
    by (simp add: aborted_def final_def)
qed

text \<open>
  C6. With \<^verbatim>\<open>log.e\<close> as the error handler, \<^verbatim>\<open>_init_config\<close> always
  completes once the configuration file has been read, whatever entries are rejected. A
  rejected entry of the overrides is logged as an error and its key keeps the value of
  the layer below (the defaults overlaid by the file); every accepted entry takes effect,
  and keys the overrides do not name are as in the layer below. The same holds for the
  file's entries over the defaults.
\<close>

theorem rejected_key_keeps_underlying_value:
  assumes "from_configparser E (configurationFile E) w = Done filecfg w1"
    and "distinct (cfg_keys filecfg)"
    and "distinct (map fst override_dict)"
  shows "\<exists>effective wx. init_config E override_dict w = Done () wx
     \<and> config wx = Some effective
     \<and> (\<forall>k v. (k, v) \<in> set override_dict \<longrightarrow>
          (if accepts E k v then cfg_get effective k = Some v
           else LogE (ConfigErrorMsg k v) \<in> set (trace wx)
                \<and> cfg_get effective k =
                    cfg_get (overlay E (from_defaults E) (items filecfg)) k))
     \<and> (\<forall>k. k \<notin> fst ` set override_dict \<longrightarrow>
          cfg_get effective k = cfg_get (overlay E (from_defaults E) (items filecfg)) k)
     \<and> (\<forall>k v. (k, v) \<in> set (items filecfg) \<longrightarrow>
          (if accepts E k v
           then cfg_get (overlay E (from_defaults E) (items filecfg)) k = Some v
           else LogE (ConfigErrorMsg k v) \<in> set (trace wx)
                \<and> cfg_get (overlay E (from_defaults E) (items filecfg)) k =
                    cfg_get (from_defaults E) k))
     \<and> (\<forall>k. k \<notin> set (cfg_keys filecfg) \<longrightarrow>
          cfg_get (overlay E (from_defaults E) (items filecfg)) k =
            cfg_get (from_defaults E) k)"
proof -
  let ?custom = "overlay E (from_defaults E) (items filecfg)"
  let ?effective = "overlay E ?custom override_dict"
  from init_config_result [OF assms(1), of override_dict] obtain wx diagnostics where
    r: "init_config E override_dict w = Done () wx"
    and c: "config wx = Some ?effective"
    and t: "trace wx = trace w1
           @ map (\<lambda>kv. LogE (ConfigErrorMsg (fst kv) (snd kv))) (rejected E (items filecfg))
           @ map (\<lambda>kv. LogE (ConfigErrorMsg (fst kv) (snd kv))) (rejected E override_dict)
           @ diagnostics"
    by blast
  have d: "distinct (map fst (items filecfg))"
    using assms(2) by (simp add: map_fst_items)
  have lg: "\<And>k v other. (k, v) \<in> set other \<Longrightarrow> \<not> accepts E k v \<Longrightarrow>
      LogE (ConfigErrorMsg k v)
        \<in> set (map (\<lambda>kv. LogE (ConfigErrorMsg (fst kv) (snd kv))) (rejected E other))"
    by (force simp add: rejected_def)
  have o: "\<forall>k v. (k, v) \<in> set override_dict \<longrightarrow>
          (if accepts E k v then cfg_get ?effective k = Some v
           else LogE (ConfigErrorMsg k v) \<in> set (trace wx)
                \<and> cfg_get ?effective k = cfg_get ?custom k)"
    using lg [of _ _ override_dict]
    by (auto simp add: t cfg_get_overlay [OF assms(3)] map_of_accepted [OF assms(3)])
  have o': "\<forall>k. k \<notin> fst ` set override_dict \<longrightarrow> cfg_get ?effective k = cfg_get ?custom k"
    by (simp add: cfg_get_overlay [OF assms(3)] map_of_accepted_None)
  have f: "\<forall>k v. (k, v) \<in> set (items filecfg) \<longrightarrow>
          (if accepts E k v then cfg_get ?custom k = Some v
           else LogE (ConfigErrorMsg k v) \<in> set (trace wx)
                \<and> cfg_get ?custom k = cfg_get (from_defaults E) k)"
    using lg [of _ _ "items filecfg"]
    by (auto simp add: t cfg_get_overlay [OF d] map_of_accepted [OF d])
  have f': "\<forall>k. k \<notin> set (cfg_keys filecfg) \<longrightarrow> cfg_get ?custom k = cfg_get (from_defaults E) k"
  proof (intro allI impI)
    fix k
    assume "k \<notin> set (cfg_keys filecfg)"
    then have "k \<notin> fst ` set (items filecfg)"
      by (metis map_fst_items set_map)
    then have "map_of (accepted E (items filecfg)) k = None"
      by (rule map_of_accepted_None)
    then show "cfg_get ?custom k = cfg_get (from_defaults E) k"
      by (simp add: cfg_get_overlay [OF d])
  qed
  from r c o o' f f' show ?thesis by blast
qed

theorem rejected_key_keeps_underlying_value_witness:
  "aborted (init_config demo_env [(''a'', PStr ''bad''), (''b'', PInt 3)] demo_world) = None
   \<and> LogE (ConfigErrorMsg ''a'' (PStr ''bad''))
        \<in> set (trace (final (init_config demo_env [(''a'', PStr ''bad''), (''b'', PInt 3)]
                                demo_world)))
   \<and> (\<exists>effective.
          config (final (init_config demo_env [(''a'', PStr ''bad''), (''b'', PInt 3)]
                           demo_world)) = Some effective
        \<and> cfg_get effective ''a'' = Some (PInt 5)
        \<and> cfg_get effective ''b'' = Some (PInt 3))"
proof -
  let ?file = "[\<lparr>key = ''a'', pvalue = PInt 5, hidden = False\<rparr>]"
  let ?ov = "[(''a'', PStr ''bad''), (''b'', PInt 3)]"
  have h1: "from_configparser demo_env (configurationFile demo_env) demo_world =
              Done ?file demo_world"
    by (simp add: demo_env_def)
  have h2: "distinct (cfg_keys ?file)"
    by (simp add: cfg_keys_def)
  have h3: "distinct (map fst ?ov)"
    by simp
  have e: "\<not> accepts demo_env ''a'' (PStr ''bad'')" "accepts demo_env ''b'' (PInt 3)"
    "cfg_get (overlay demo_env (from_defaults demo_env) (items ?file)) ''a'' = Some (PInt 5)"
    by (simp_all add: demo_env_def items_def cfg_get_def)
  from rejected_key_keeps_underlying_value [OF h1 h2 h3] obtain effective wx where
    r: "init_config demo_env ?ov demo_world = Done () wx"
    and c: "config wx = Some effective"
    and o: "\<forall>k v. (k, v) \<in> set ?ov \<longrightarrow>
          (if accepts demo_env k v then cfg_get effective k = Some v
           else LogE (ConfigErrorMsg k v) \<in> set (trace wx)
                \<and> cfg_get effective k =
                    cfg_get (overlay demo_env (from_defaults demo_env) (items ?file)) k)"
    by blast
  from o [rule_format, of "''a''" "PStr ''bad''"] e
  have a: "LogE (ConfigErrorMsg ''a'' (PStr ''bad'')) \<in> set (trace wx)"
    "cfg_get effective ''a'' = Some (PInt 5)"
    by simp_all
  from o [rule_format, of "''b''" "PInt 3"] e
  have b: "cfg_get effective ''b'' = Some (PInt 3)"
    by simp
  from r c a b show ?thesis
    by (simp add: aborted_def final_def)
qed

end
